theory Spec2Isabelle
  imports Main "HOL-Library.Word"
begin

section \<open>The Pontem wallet adapter (WalletAdapters/PontemWallet.ts)\<close>

text \<open>
  The adapter is a class with five fields that forwards its operations to an
  object injected by a browser extension. Every method is an \<^verbatim>\<open>async\<close> function;
  it is embedded as a function on an explicit world (the adapter's fields, the events
  emitted so far, the provider operations invoked so far) that either returns a value
  (the promise is fulfilled) or throws one (the promise is rejected). What the provider
  answers is not decided by this file: it is an input of every operation, and so is
  whether a global \<^verbatim>\<open>window\<close> exists. An operation is run from its call to its
  completion; the runs of two operations are not interleaved.
\<close>

subsection \<open>Values\<close>

text \<open>
  \<^verbatim>\<open>MaybeHexString = HexString | string\<close>. A string is falsy when it is empty, an
  object never is. Where a value may be \<^verbatim>\<open>undefined\<close> or \<^verbatim>\<open>null\<close> its type is an
  option and \<open>None\<close> stands for both.
\<close>

datatype MaybeHexString = Str string | HexString string

type_synonym HexEncodedBytes = string

type_synonym Uint8Array = "8 word list"

text \<open>Payload and options are forwarded to the provider and never inspected.\<close>

datatype TransactionPayload = TransactionPayload string

datatype any = Any string

fun truthy :: "MaybeHexString option \<Rightarrow> bool" where
  "truthy None = False"
| "truthy (Some (Str s)) = (s \<noteq> [])"
| "truthy (Some (HexString h)) = True"

text \<open>
  Modelled from the spec: the enumeration \<^verbatim>\<open>WalletReadyState\<close> of \<^verbatim>\<open>./BaseAdapter\<close>,
  which is imported and not part of the file.
\<close>

datatype WalletReadyState = Installed | NotDetected | Loadable | Unsupported

text \<open>
  Values that are thrown and caught. \<open>Undefined\<close> and \<open>Object m e\<close> are what a
  provider may reject with: nothing, or an object whose \<^verbatim>\<open>message\<close> property is \<open>m\<close>
  and whose \<^verbatim>\<open>error\<close> property is \<open>e\<close> (the adapter reads no other property of a
  caught value). \<open>Error\<close>, \<open>TypeError\<close> and \<open>ReferenceError\<close> are the built-in classes,
  each with its message. \<open>WalletNotReadyError\<close> and \<open>WalletNotConnectedError\<close> are the two classes of
  \<^verbatim>\<open>../WalletProviders/errors\<close> that the adapter throws, with the message it gives them.
  That module is not part of the file; its classes are taken to be subclasses of
  \<^verbatim>\<open>Error\<close> that pass their first argument on as the message and keep the second one
  as the property \<^verbatim>\<open>error\<close>.
\<close>

datatype js_value =
    Undefined
  | Object "string option" js_value
  | Error string
  | TypeError string
  | ReferenceError string
  | WalletNotReadyError
  | WalletNotConnectedError "string option"

text \<open>
  The argument of an \<^verbatim>\<open>error\<close> event: \<^verbatim>\<open>new Error(message)\<close> or one of the classes of
  \<^verbatim>\<open>../WalletProviders/errors\<close> that the adapter only reports, with the arguments it
  constructs them with.
\<close>

datatype wallet_error =
    Generic_Error string
  | WalletDisconnectionError "string option" js_value
  | WalletSignTransactionError js_value
  | WalletSignAndSubmitMessageError "string option"
  | WalletSignMessageError "string option"

datatype 'a outcome = Returns 'a | Throws js_value

text \<open>
  The TypeError raised by reading the property \<open>p\<close> of \<^verbatim>\<open>undefined\<close>, with the
  message V8 gives it (the name of the property is quoted).
\<close>

definition cannot_read :: "string \<Rightarrow> js_value" where
  "cannot_read p =
     TypeError (''Cannot read properties of undefined (reading '' @ [CHR 0x27] @ p @ [CHR 0x27] @ '')'')"

text \<open>The ReferenceError raised by evaluating an identifier that is not defined.\<close>

definition not_defined :: "string \<Rightarrow> js_value" where
  "not_defined x = ReferenceError (x @ '' is not defined'')"

definition message_or_empty :: "string option \<Rightarrow> string option" where
  "message_or_empty m = (case m of None \<Rightarrow> Some [] | Some t \<Rightarrow> Some t)"

text \<open>\<^verbatim>\<open>v.message\<close> and \<^verbatim>\<open>v.error\<close>: reading a property of \<^verbatim>\<open>undefined\<close> throws.\<close>

fun get_message :: "js_value \<Rightarrow> string option outcome" where
  "get_message Undefined = Throws (cannot_read ''message'')"
| "get_message (Object m e) = Returns m"
| "get_message (Error m) = Returns (Some m)"
| "get_message (TypeError m) = Returns (Some m)"
| "get_message (ReferenceError m) = Returns (Some m)"
| "get_message WalletNotReadyError = Returns (Some [])"
| "get_message (WalletNotConnectedError m) = Returns (message_or_empty m)"

fun get_error :: "js_value \<Rightarrow> js_value outcome" where
  "get_error Undefined = Throws (cannot_read ''error'')"
| "get_error (Object m e) = Returns e"
| "get_error v = Returns Undefined"

text \<open>\<^verbatim>\<open>v?.message\<close>: \<^verbatim>\<open>undefined\<close> when \<open>v\<close> is.\<close>

definition optional_message :: "js_value \<Rightarrow> string option" where
  "optional_message v = (case get_message v of Returns m \<Rightarrow> m | Throws x \<Rightarrow> None)"

subsection \<open>The provider\<close>

record ConnectPontemAccount =
  connect_address :: MaybeHexString
  connect_method :: string
  connect_publicKey :: MaybeHexString
  connect_status :: int

record PontemAccount =
  address :: MaybeHexString
  publicKey :: "MaybeHexString option"
  authKey :: "MaybeHexString option"
  isConnected :: bool

record SubmitResult =
  hash :: HexEncodedBytes

record SignAndSubmitResponse =
  submit_success :: bool
  submit_result :: "SubmitResult option"

record SignedMessage =
  hexString :: HexEncodedBytes

record SignMessageResponse =
  success :: bool
  result :: "SignedMessage option"

text \<open>
  \<^verbatim>\<open>IPontemWallet\<close>: the injected object. The adapter holds a reference to it; what its
  methods answer during one operation of the adapter is given by \<open>provider_replies\<close>,
  one outcome for each method (each is called at most once in an operation). Every
  promise of the provider is taken to settle: it resolves or it rejects. A promise
  that resolves to nothing resolves to \<open>None\<close>. \<^verbatim>\<open>generateTransaction\<close> is never called
  by the adapter and is left out.
\<close>

datatype IPontemWallet = Provider nat

record provider_replies =
  p_connect :: "ConnectPontemAccount option outcome"
  p_account :: "MaybeHexString option outcome"
  p_publicKey :: "MaybeHexString option outcome"
  p_signAndSubmit :: "TransactionPayload \<Rightarrow> any option \<Rightarrow> SignAndSubmitResponse option outcome"
  p_isConnected :: "bool option outcome"
  p_signTransaction :: "TransactionPayload \<Rightarrow> any option \<Rightarrow> Uint8Array option outcome"
  p_signMessage :: "string \<Rightarrow> SignMessageResponse option outcome"
  p_disconnect :: "unit option outcome"

datatype call =
    Call_connect
  | Call_account
  | Call_publicKey
  | Call_signAndSubmit TransactionPayload "any option"
  | Call_isConnected
  | Call_signTransaction TransactionPayload "any option"
  | Call_signMessage string
  | Call_disconnect

record PontemWindow =
  pontem :: "IPontemWallet option"

text \<open>
  The surroundings of one operation: the global \<^verbatim>\<open>window\<close>, and the replies of every
  provider object. Outside a page there is no such global (\<^verbatim>\<open>typeof window\<close> is
  \<^verbatim>\<open>'undefined'\<close>, the case the constructor asks about): \<open>window\<close> is \<open>None\<close> then, and
  evaluating \<^verbatim>\<open>window.pontem\<close> throws a ReferenceError.
\<close>

record environment =
  window :: "PontemWindow option"
  replies :: "IPontemWallet \<Rightarrow> provider_replies"

subsection \<open>The adapter's state and its events\<close>

text \<open>
  The fields \<^verbatim>\<open>_provider\<close>, \<^verbatim>\<open>_timeout\<close>, \<^verbatim>\<open>_readyState\<close>, \<^verbatim>\<open>_connecting\<close> and
  \<^verbatim>\<open>_wallet\<close> (a name cannot start with an underscore here). \<^verbatim>\<open>_wallet\<close> is the
  connection record; \<open>None\<close> is \<^verbatim>\<open>null\<close>.
\<close>

record PontemWalletAdapter =
  priv_provider :: "IPontemWallet option"
  priv_timeout :: int
  priv_readyState :: WalletReadyState
  priv_connecting :: bool
  priv_wallet :: "PontemAccount option"

datatype event =
    Connect_event MaybeHexString
  | Disconnect_event
  | Error_event wallet_error
  | ReadyStateChange_event WalletReadyState

text \<open>Modelled from the spec: the type \<^verbatim>\<open>AccountKeys\<close> of \<^verbatim>\<open>./BaseAdapter\<close>.\<close>

record AccountKeys =
  keys_publicKey :: "MaybeHexString option"
  keys_address :: "MaybeHexString option"
  keys_authKey :: "MaybeHexString option"

record world =
  this :: PontemWalletAdapter
  emitted :: "event list"
  invoked :: "call list"

type_synonym 'a task = "world \<Rightarrow> 'a outcome \<times> world"

definition start :: "PontemWalletAdapter \<Rightarrow> world" where
  "start s = \<lparr>this = s, emitted = [], invoked = []\<rparr>"

subsection \<open>Statements\<close>

definition ret :: "'a \<Rightarrow> 'a task" where
  "ret v w = (Returns v, w)"

definition throw :: "js_value \<Rightarrow> 'a task" where
  "throw x w = (Throws x, w)"

definition lift :: "'a outcome \<Rightarrow> 'a task" where
  "lift r w = (r, w)"

definition bind :: "'a task \<Rightarrow> ('a \<Rightarrow> 'b task) \<Rightarrow> 'b task" where
  "bind m f w = (case m w of (Returns v, w') \<Rightarrow> f v w' | (Throws x, w') \<Rightarrow> (Throws x, w'))"

definition try_catch :: "'a task \<Rightarrow> (js_value \<Rightarrow> 'a task) \<Rightarrow> 'a task" where
  "try_catch m handler w =
     (case m w of (Returns v, w') \<Rightarrow> (Returns v, w') | (Throws x, w') \<Rightarrow> handler x w')"

text \<open>
  \<^verbatim>\<open>try { m } finally { f }\<close>: \<open>f\<close> runs however \<open>m\<close> ends, also after a
  \<^verbatim>\<open>return\<close> inside \<open>m\<close>, and the outcome of \<open>m\<close> stands unless \<open>f\<close> throws.
\<close>

definition try_finally :: "'a task \<Rightarrow> unit task \<Rightarrow> 'a task" where
  "try_finally m f w =
     (case m w of (r, w') \<Rightarrow>
        (case f w' of (Returns u, w'') \<Rightarrow> (r, w'') | (Throws x, w'') \<Rightarrow> (Throws x, w'')))"

definition read :: "(PontemWalletAdapter \<Rightarrow> 'a) \<Rightarrow> 'a task" where
  "read f w = (Returns (f (this w)), w)"

definition assign :: "(PontemWalletAdapter \<Rightarrow> PontemWalletAdapter) \<Rightarrow> unit task" where
  "assign f w = (Returns (), w\<lparr>this := f (this w)\<rparr>)"

text \<open>\<^verbatim>\<open>this.emit(...)\<close>: the event is recorded; the listeners are not part of the file.\<close>

definition emit :: "event \<Rightarrow> unit task" where
  "emit ev w = (Returns (), w\<lparr>emitted := emitted w @ [ev]\<rparr>)"

text \<open>\<^verbatim>\<open>await p.f(...)\<close>: the call is recorded and its outcome is the provider's reply.\<close>

definition invoke :: "call \<Rightarrow> 'a outcome \<Rightarrow> 'a task" where
  "invoke c r w = (r, w\<lparr>invoked := invoked w @ [c]\<rparr>)"

text \<open>\<^verbatim>\<open>await provider?.f(...)\<close>: no call and \<^verbatim>\<open>undefined\<close> when there is no provider.\<close>

definition optional_call :: "IPontemWallet option \<Rightarrow> (IPontemWallet \<Rightarrow> 'a option task) \<Rightarrow> 'a option task" where
  "optional_call provider f = (case provider of None \<Rightarrow> ret None | Some p \<Rightarrow> f p)"

text \<open>\<^verbatim>\<open>window.pontem\<close>\<close>

definition window_pontem :: "environment \<Rightarrow> IPontemWallet option outcome" where
  "window_pontem e =
     (case window e of
        None \<Rightarrow> Throws (not_defined ''window'')
      | Some w \<Rightarrow> Returns (pontem w))"

subsection \<open>Construction and detection\<close>

record PontemWalletAdapterConfig =
  timeout :: "int option"

text \<open>
  The constructor and the field initialisers. \<open>win\<close> is the global \<^verbatim>\<open>window\<close>, \<open>None\<close>
  when \<^verbatim>\<open>typeof window === 'undefined'\<close>; \<open>document_defined\<close> is
  \<^verbatim>\<open>typeof document !== 'undefined'\<close>.
\<close>

definition constructor :: "PontemWindow option \<Rightarrow> bool \<Rightarrow> PontemWalletAdapterConfig \<Rightarrow> PontemWalletAdapter" where
  "constructor win document_defined config =
     \<lparr>priv_provider = (case win of None \<Rightarrow> None | Some w \<Rightarrow> pontem w),
      priv_timeout = (case timeout config of None \<Rightarrow> 10000 | Some t \<Rightarrow> t),
      priv_readyState = (if win = None \<or> \<not> document_defined then Unsupported else NotDetected),
      priv_connecting = False,
      priv_wallet = None\<rparr>"

text \<open>
  The callback handed to \<^verbatim>\<open>scopePollingDetectionStrategy\<close>, which the constructor
  registers when \<^verbatim>\<open>window\<close> is defined and the ready state is not \<open>Unsupported\<close>.
\<close>

definition detect :: "environment \<Rightarrow> bool task" where
  "detect e =
     bind (lift (window_pontem e)) (\<lambda>injected.
     case injected of
       Some p \<Rightarrow>
         bind (assign (\<lambda>s. s\<lparr>priv_readyState := Installed\<rparr>)) (\<lambda>_.
         bind (read priv_readyState) (\<lambda>rs.
         bind (emit (ReadyStateChange_event rs)) (\<lambda>_.
         ret True)))
     | None \<Rightarrow> ret False)"

subsection \<open>Accessors\<close>

text \<open>\<^verbatim>\<open>x || null\<close>\<close>

definition or_null :: "MaybeHexString option \<Rightarrow> MaybeHexString option" where
  "or_null v = (if truthy v then v else None)"

definition publicAccount :: "PontemWalletAdapter \<Rightarrow> AccountKeys" where
  "publicAccount s =
     \<lparr>keys_publicKey = or_null (case priv_wallet s of None \<Rightarrow> None | Some wallet \<Rightarrow> publicKey wallet),
      keys_address = or_null (case priv_wallet s of None \<Rightarrow> None | Some wallet \<Rightarrow> Some (address wallet)),
      keys_authKey = or_null (case priv_wallet s of None \<Rightarrow> None | Some wallet \<Rightarrow> authKey wallet)\<rparr>"

definition connecting :: "PontemWalletAdapter \<Rightarrow> bool" where
  "connecting s = priv_connecting s"

definition connected :: "PontemWalletAdapter \<Rightarrow> bool" where
  "connected s = (case priv_wallet s of None \<Rightarrow> False | Some wallet \<Rightarrow> isConnected wallet)"

definition readyState :: "PontemWalletAdapter \<Rightarrow> WalletReadyState" where
  "readyState s = priv_readyState s"

text \<open>
  \<^verbatim>\<open>this._provider || window.pontem\<close>: the right operand is evaluated only when
  \<^verbatim>\<open>_provider\<close> is \<^verbatim>\<open>undefined\<close>, and throws when there is no \<^verbatim>\<open>window\<close>.
\<close>

definition provider_of :: "environment \<Rightarrow> PontemWalletAdapter \<Rightarrow> IPontemWallet option outcome" where
  "provider_of e s = (case priv_provider s of Some p \<Rightarrow> Returns (Some p) | None \<Rightarrow> window_pontem e)"

definition get_provider :: "environment \<Rightarrow> IPontemWallet option task" where
  "get_provider e w = (provider_of e (this w), w)"

text \<open>\<^verbatim>\<open>this._wallet?.address || ''\<close>\<close>

definition address_or_empty :: "PontemWalletAdapter \<Rightarrow> MaybeHexString" where
  "address_or_empty s =
     (case priv_wallet s of
        None \<Rightarrow> Str []
      | Some wallet \<Rightarrow> if truthy (Some (address wallet)) then address wallet else Str [])"

subsection \<open>The operations\<close>

text \<open>
  \<^verbatim>\<open>connect\<close>: the body of the \<^verbatim>\<open>try\<close>, its \<^verbatim>\<open>catch\<close> and its \<^verbatim>\<open>finally\<close>. The
  early \<^verbatim>\<open>return\<close> is inside the \<^verbatim>\<open>try\<close>, so the \<^verbatim>\<open>finally\<close> block runs after it too.
\<close>

definition connect :: "environment \<Rightarrow> unit task" where
  "connect e =
     try_finally
       (try_catch
          (bind (read (\<lambda>s. connected s \<or> connecting s)) (\<lambda>busy.
           if busy then ret ()
           else
             bind (read priv_readyState) (\<lambda>rs.
             if \<not> (rs = Loadable \<or> rs = Installed) then throw WalletNotReadyError
             else
               bind (assign (\<lambda>s. s\<lparr>priv_connecting := True\<rparr>)) (\<lambda>_.
               bind (get_provider e) (\<lambda>provider.
               bind (optional_call provider (\<lambda>p. invoke Call_isConnected (p_isConnected (replies e p)))) (\<lambda>isConnected.
               bind (if isConnected = Some True
                     then optional_call provider (\<lambda>p. invoke Call_disconnect (p_disconnect (replies e p)))
                     else ret None) (\<lambda>_.
               bind (optional_call provider (\<lambda>p. invoke Call_connect (p_connect (replies e p)))) (\<lambda>response.
               if response = None then throw (WalletNotConnectedError (Some ''No connect response''))
               else
                 bind (optional_call provider (\<lambda>p. invoke Call_account (p_account (replies e p)))) (\<lambda>walletAccount.
                 bind (optional_call provider (\<lambda>p. invoke Call_publicKey (p_publicKey (replies e p)))) (\<lambda>publicKey.
                 bind (case walletAccount of
                         None \<Rightarrow> ret ()
                       | Some a \<Rightarrow>
                           if truthy walletAccount
                           then assign (\<lambda>s. s\<lparr>priv_wallet :=
                                  Some \<lparr>address = a, publicKey = publicKey, authKey = None, isConnected = True\<rparr>\<rparr>)
                           else ret ()) (\<lambda>_.
                 bind (read address_or_empty) (\<lambda>a.
                 emit (Connect_event a)))))))))))))
          (\<lambda>error.
             bind (emit (Error_event (Generic_Error ''User has rejected the connection''))) (\<lambda>_.
             throw error)))
       (assign (\<lambda>s. s\<lparr>priv_connecting := False\<rparr>))"

text \<open>
  \<^verbatim>\<open>disconnect\<close>: the two \<^verbatim>\<open>const\<close> declarations come before the \<^verbatim>\<open>if\<close> and are in
  no \<^verbatim>\<open>try\<close> block; only the provider call is.
\<close>

definition disconnect :: "environment \<Rightarrow> unit task" where
  "disconnect e =
     bind (read priv_wallet) (\<lambda>wallet.
     bind (get_provider e) (\<lambda>provider.
     bind (case wallet of
             None \<Rightarrow> ret ()
           | Some a \<Rightarrow>
               bind (assign (\<lambda>s. s\<lparr>priv_wallet := None\<rparr>)) (\<lambda>_.
               try_catch
                 (bind (optional_call provider (\<lambda>p. invoke Call_disconnect (p_disconnect (replies e p)))) (\<lambda>_.
                  ret ()))
                 (\<lambda>error. emit (Error_event (WalletDisconnectionError (optional_message error) error))))) (\<lambda>_.
     emit Disconnect_event)))"

definition signTransaction :: "environment \<Rightarrow> TransactionPayload \<Rightarrow> any option \<Rightarrow> Uint8Array option task" where
  "signTransaction e transactionPyld options =
     try_catch
       (bind (read priv_wallet) (\<lambda>wallet.
        bind (get_provider e) (\<lambda>provider.
        if wallet = None \<or> provider = None then throw (WalletNotConnectedError None)
        else
          bind (optional_call provider (\<lambda>p.
                  invoke (Call_signTransaction transactionPyld options)
                    (p_signTransaction (replies e p) transactionPyld options))) (\<lambda>response.
          ret response))))
       (\<lambda>error.
          bind (emit (Error_event (WalletSignTransactionError error))) (\<lambda>_.
          throw error))"

text \<open>
  In the \<^verbatim>\<open>catch\<close> block of \<^verbatim>\<open>signAndSubmitTransaction\<close> the argument
  \<^verbatim>\<open>error.error.message\<close> is evaluated before \<^verbatim>\<open>emit\<close> is called: when one of the two
  property reads throws, nothing is emitted and the new exception leaves the function.
\<close>

definition signAndSubmitTransaction :: "environment \<Rightarrow> TransactionPayload \<Rightarrow> any option \<Rightarrow> SubmitResult task" where
  "signAndSubmitTransaction e transactionPyld options =
     try_catch
       (bind (read priv_wallet) (\<lambda>wallet.
        bind (get_provider e) (\<lambda>provider.
        if wallet = None \<or> provider = None then throw (WalletNotConnectedError None)
        else
          bind (optional_call provider (\<lambda>p.
                  invoke (Call_signAndSubmit transactionPyld options)
                    (p_signAndSubmit (replies e p) transactionPyld options))) (\<lambda>response.
          case response of
            None \<Rightarrow> throw (Error ''No response'')
          | Some r \<Rightarrow>
              if \<not> submit_success r then throw (Error ''No response'')
              else (case submit_result r of
                      None \<Rightarrow> throw (cannot_read ''hash'')
                    | Some res \<Rightarrow> ret \<lparr>hash = hash res\<rparr>)))))
       (\<lambda>error.
          bind (lift (get_error error)) (\<lambda>inner.
          bind (lift (get_message inner)) (\<lambda>m.
          bind (emit (Error_event (WalletSignAndSubmitMessageError m))) (\<lambda>_.
          throw error))))"

text \<open>The \<^verbatim>\<open>console.log\<close> of the response is not modelled.\<close>

definition signMessage :: "environment \<Rightarrow> string \<Rightarrow> string task" where
  "signMessage e message =
     try_catch
       (bind (read priv_wallet) (\<lambda>wallet.
        bind (get_provider e) (\<lambda>provider.
        if wallet = None \<or> provider = None then throw (WalletNotConnectedError None)
        else
          bind (optional_call provider (\<lambda>p.
                  invoke (Call_signMessage message) (p_signMessage (replies e p) message))) (\<lambda>response.
          case response of
            None \<Rightarrow> throw (cannot_read ''success'')
          | Some r \<Rightarrow>
              if success r
              then (case result r of
                      None \<Rightarrow> throw (cannot_read ''hexString'')
                    | Some res \<Rightarrow> ret (hexString res))
              else throw (Error ''Sign Message failed'')))))
       (\<lambda>error.
          bind (lift (get_message error)) (\<lambda>errMsg.
          bind (emit (Error_event (WalletSignMessageError errMsg))) (\<lambda>_.
          throw error)))"

subsection \<open>Runs, reachable states and concrete inputs\<close>

text \<open>The four things a run of an operation from a state leaves behind.\<close>

definition outcome_of :: "'a outcome \<times> world \<Rightarrow> 'a outcome" where
  "outcome_of r = fst r"

definition state_after :: "'a outcome \<times> world \<Rightarrow> PontemWalletAdapter" where
  "state_after r = this (snd r)"

definition events_of :: "'a outcome \<times> world \<Rightarrow> event list" where
  "events_of r = emitted (snd r)"

definition calls_of :: "'a outcome \<times> world \<Rightarrow> call list" where
  "calls_of r = invoked (snd r)"

text \<open>The connection record is present exactly when \<^verbatim>\<open>connected\<close> is true.\<close>

definition consistent :: "PontemWalletAdapter \<Rightarrow> bool" where
  "consistent s = ((priv_wallet s \<noteq> None) = connected s)"

definition authKey_unset :: "PontemWalletAdapter \<Rightarrow> bool" where
  "authKey_unset s = (case priv_wallet s of None \<Rightarrow> True | Some wallet \<Rightarrow> authKey wallet = None)"

text \<open>
  The states of an adapter instance: the one the constructor builds, and every state
  that a detection by the polling callback (registered unless the ready state is
  \<open>Unsupported\<close>) or a public operation leads to, whatever the surroundings answer.
\<close>

inductive reachable :: "PontemWalletAdapter \<Rightarrow> bool" where
  constructed: "reachable (constructor win document_defined config)"
| detected: "reachable s \<Longrightarrow> priv_readyState s \<noteq> Unsupported \<Longrightarrow>
     reachable (state_after (detect e (start s)))"
| after_connect: "reachable s \<Longrightarrow> reachable (state_after (connect e (start s)))"
| after_disconnect: "reachable s \<Longrightarrow> reachable (state_after (disconnect e (start s)))"
| after_signTransaction: "reachable s \<Longrightarrow>
     reachable (state_after (signTransaction e transactionPyld options (start s)))"
| after_signAndSubmitTransaction: "reachable s \<Longrightarrow>
     reachable (state_after (signAndSubmitTransaction e transactionPyld options (start s)))"
| after_signMessage: "reachable s \<Longrightarrow> reachable (state_after (signMessage e message (start s)))"

text \<open>
  A provider that is installed as \<^verbatim>\<open>window.pontem\<close>, has no session yet, and answers
  \<^verbatim>\<open>account()\<close> with 0xA and \<^verbatim>\<open>publicKey()\<close> with 0xB.
\<close>

definition example_window :: PontemWindow where
  "example_window = \<lparr>pontem = Some (Provider 0)\<rparr>"

definition example_replies :: provider_replies where
  "example_replies =
     \<lparr>p_connect = Returns (Some \<lparr>connect_address = Str ''0xA'', connect_method = ''connect'',
                    connect_publicKey = Str ''0xB'', connect_status = 200\<rparr>),
      p_account = Returns (Some (Str ''0xA'')),
      p_publicKey = Returns (Some (Str ''0xB'')),
      p_signAndSubmit = (\<lambda>transaction options.
         Returns (Some \<lparr>submit_success = True, submit_result = Some \<lparr>hash = ''0xbeef''\<rparr>\<rparr>)),
      p_isConnected = Returns (Some False),
      p_signTransaction = (\<lambda>transaction options. Returns (Some [1, 2, 3])),
      p_signMessage = (\<lambda>message.
         Returns (Some \<lparr>success = True, result = Some \<lparr>hexString = ''0xdead''\<rparr>\<rparr>)),
      p_disconnect = Returns None\<rparr>"

definition example_env :: environment where
  "example_env = \<lparr>window = Some example_window, replies = (\<lambda>p. example_replies)\<rparr>"

definition fresh_adapter :: PontemWalletAdapter where
  "fresh_adapter = constructor (Some example_window) True \<lparr>timeout = None\<rparr>"

definition installed_adapter :: PontemWalletAdapter where
  "installed_adapter = state_after (detect example_env (start fresh_adapter))"

definition connected_adapter :: PontemWalletAdapter where
  "connected_adapter = state_after (connect example_env (start installed_adapter))"

text \<open>Variations: a provider with a stale session whose \<^verbatim>\<open>disconnect()\<close> rejects.\<close>

definition stale_session_env :: environment where
  "stale_session_env =
     \<lparr>window = Some example_window,
      replies = (\<lambda>p. example_replies
        \<lparr>p_isConnected := Returns (Some True),
         p_disconnect := Throws (Object (Some ''disconnect failed'') Undefined)\<rparr>)\<rparr>"

text \<open>A provider with a stale session whose \<^verbatim>\<open>disconnect()\<close> succeeds.\<close>

definition settled_session_env :: environment where
  "settled_session_env =
     \<lparr>window = Some example_window,
      replies = (\<lambda>p. example_replies\<lparr>p_isConnected := Returns (Some True)\<rparr>)\<rparr>"

text \<open>
  No page: there is no \<^verbatim>\<open>window\<close> and no \<^verbatim>\<open>document\<close>, and the adapter is the one
  that the constructor builds there.
\<close>

definition windowless_env :: environment where
  "windowless_env = \<lparr>window = None, replies = (\<lambda>p. example_replies)\<rparr>"

definition windowless_adapter :: PontemWalletAdapter where
  "windowless_adapter = constructor None False \<lparr>timeout = None\<rparr>"

text \<open>A provider whose \<^verbatim>\<open>account()\<close> resolves to nothing and whose \<^verbatim>\<open>publicKey()\<close> rejects.\<close>

definition no_keys_env :: environment where
  "no_keys_env =
     \<lparr>window = Some example_window,
      replies = (\<lambda>p. example_replies
        \<lparr>p_account := Returns None,
         p_publicKey := Throws (Object (Some ''no account'') Undefined)\<rparr>)\<rparr>"

text \<open>A provider that answers both signing requests with \<^verbatim>\<open>{ success: false }\<close>.\<close>

definition refusing_env :: environment where
  "refusing_env =
     \<lparr>window = Some example_window,
      replies = (\<lambda>p. example_replies
        \<lparr>p_signAndSubmit := (\<lambda>transaction options.
           Returns (Some \<lparr>submit_success = False, submit_result = None\<rparr>)),
         p_signMessage := (\<lambda>message. Returns (Some \<lparr>success = False, result = None\<rparr>))\<rparr>)\<rparr>"

text \<open>A provider whose \<^verbatim>\<open>account()\<close> resolves to nothing.\<close>

definition no_account_env :: environment where
  "no_account_env =
     \<lparr>window = Some example_window,
      replies = (\<lambda>p. example_replies\<lparr>p_account := Returns None\<rparr>)\<rparr>"

text \<open>A provider without a session of its own whose \<^verbatim>\<open>disconnect()\<close> rejects.\<close>

definition failing_disconnect_env :: environment where
  "failing_disconnect_env =
     \<lparr>window = Some example_window,
      replies = (\<lambda>p. example_replies\<lparr>p_disconnect := Throws (Object (Some ''busy'') Undefined)\<rparr>)\<rparr>"

section \<open>Properties\<close>

lemmas task_defs = ret_def throw_def lift_def bind_def try_catch_def try_finally_def
  read_def assign_def emit_def invoke_def optional_call_def start_def
  outcome_of_def state_after_def events_of_def calls_of_def get_provider_def

lemmas example_defs = example_window_def example_replies_def example_env_def
  stale_session_env_def settled_session_env_def refusing_env_def no_account_env_def
  failing_disconnect_env_def windowless_env_def no_keys_env_def

subsection \<open>What each operation does to the connection record\<close>

lemma connect_wallet:
  "priv_wallet (state_after (connect e (start s))) = priv_wallet s \<or>
   (\<exists>a k. priv_wallet (state_after (connect e (start s))) =
      Some \<lparr>address = a, publicKey = k, authKey = None, isConnected = True\<rparr>)"
  by (auto simp add: connect_def task_defs split: outcome.splits option.splits if_splits prod.splits)

lemma disconnect_wallet:
  "priv_wallet (state_after (disconnect e (start s))) = None \<or>
   state_after (disconnect e (start s)) = s"
  by (auto simp add: disconnect_def task_defs split: outcome.splits option.splits prod.splits)

lemma signTransaction_state: "state_after (signTransaction e t opts (start s)) = s"
  by (auto simp add: signTransaction_def task_defs split: outcome.splits option.splits prod.splits)

lemma signAndSubmitTransaction_state: "state_after (signAndSubmitTransaction e t opts (start s)) = s"
  by (auto simp add: signAndSubmitTransaction_def task_defs
      split: outcome.splits option.splits if_splits prod.splits)

lemma signMessage_state: "state_after (signMessage e m (start s)) = s"
  by (auto simp add: signMessage_def task_defs split: outcome.splits option.splits if_splits prod.splits)

lemma detect_wallet: "priv_wallet (state_after (detect e (start s))) = priv_wallet s"
  by (auto simp add: detect_def task_defs split: option.splits outcome.splits)

lemma provider_of_connecting:
  "provider_of e (s\<lparr>priv_connecting := c\<rparr>) = provider_of e s"
  by (simp add: provider_of_def window_pontem_def)

lemma connect_consistent: "consistent s \<Longrightarrow> consistent (state_after (connect e (start s)))"
  using connect_wallet [of e s] by (auto simp add: consistent_def connected_def)

lemma disconnect_consistent: "consistent s \<Longrightarrow> consistent (state_after (disconnect e (start s)))"
  using disconnect_wallet [of e s] by (auto simp add: consistent_def connected_def)

lemma disconnect_authKey_unset:
  "authKey_unset s \<Longrightarrow> authKey_unset (state_after (disconnect e (start s)))"
  using disconnect_wallet [of e s] by (auto simp add: authKey_unset_def)

lemma connect_authKey_unset: "authKey_unset s \<Longrightarrow> authKey_unset (state_after (connect e (start s)))"
  using connect_wallet [of e s] by (auto simp add: authKey_unset_def)

lemma reachable_consistent: "reachable s \<Longrightarrow> consistent s"
proof (induction rule: reachable.induct)
  case (constructed win document_defined config)
  show ?case by (simp add: consistent_def connected_def constructor_def)
next
  case (detected s e)
  then show ?case by (simp add: consistent_def connected_def detect_wallet)
next
  case (after_connect s e)
  then show ?case by (simp add: connect_consistent)
next
  case (after_disconnect s e)
  then show ?case by (simp add: disconnect_consistent)
qed (simp_all add: signTransaction_state signAndSubmitTransaction_state signMessage_state)

lemma reachable_authKey_unset: "reachable s \<Longrightarrow> authKey_unset s"
proof (induction rule: reachable.induct)
  case (constructed win document_defined config)
  show ?case by (simp add: authKey_unset_def constructor_def)
next
  case (detected s e)
  then show ?case by (simp add: authKey_unset_def detect_wallet)
next
  case (after_connect s e)
  then show ?case by (simp add: connect_authKey_unset)
next
  case (after_disconnect s e)
  then show ?case by (simp add: disconnect_authKey_unset)
qed (simp_all add: signTransaction_state signAndSubmitTransaction_state signMessage_state)

subsection \<open>The concrete states\<close>

lemma fresh_adapter_eq:
  "fresh_adapter = \<lparr>priv_provider = Some (Provider 0), priv_timeout = 10000,
     priv_readyState = NotDetected, priv_connecting = False, priv_wallet = None\<rparr>"
  by (simp add: fresh_adapter_def constructor_def example_defs)

lemma installed_adapter_eq:
  "installed_adapter = \<lparr>priv_provider = Some (Provider 0), priv_timeout = 10000,
     priv_readyState = Installed, priv_connecting = False, priv_wallet = None\<rparr>"
  by (simp add: installed_adapter_def fresh_adapter_eq detect_def task_defs example_defs
      window_pontem_def)

lemma connected_adapter_eq:
  "connected_adapter = \<lparr>priv_provider = Some (Provider 0), priv_timeout = 10000,
     priv_readyState = Installed, priv_connecting = False,
     priv_wallet = Some \<lparr>address = Str ''0xA'', publicKey = Some (Str ''0xB''),
       authKey = None, isConnected = True\<rparr>\<rparr>"
  by (simp add: connected_adapter_def installed_adapter_eq connect_def task_defs example_defs
      connected_def connecting_def provider_of_def window_pontem_def address_or_empty_def)

lemma reachable_installed_adapter: "reachable installed_adapter"
  unfolding installed_adapter_def fresh_adapter_def
  by (rule reachable.detected, rule reachable.constructed) (simp add: constructor_def)

lemma reachable_connected_adapter: "reachable connected_adapter"
  unfolding connected_adapter_def by (rule reachable.after_connect, rule reachable_installed_adapter)

subsection \<open>The connection record and the accessor \<^verbatim>\<open>connected\<close>\<close>

text \<open>
  C1. In every reachable state of an adapter the connection record \<^verbatim>\<open>_wallet\<close> is
  present if and only if the accessor \<^verbatim>\<open>connected\<close> returns true, and each of the
  public operations \<^verbatim>\<open>connect\<close>, \<^verbatim>\<open>disconnect\<close>, \<^verbatim>\<open>signTransaction\<close>,
  \<^verbatim>\<open>signAndSubmitTransaction\<close> and \<^verbatim>\<open>signMessage\<close> leads from a state in which the
  equivalence holds to a state in which it holds, whatever the provider answers.
\<close>

theorem record_present_iff_connected:
  "(reachable s \<longrightarrow> (priv_wallet s \<noteq> None) = connected s) \<and>
   (consistent s \<longrightarrow>
      consistent (state_after (connect e (start s))) \<and>
      consistent (state_after (disconnect e (start s))) \<and>
      consistent (state_after (signTransaction e transactionPyld options (start s))) \<and>
      consistent (state_after (signAndSubmitTransaction e transactionPyld options (start s))) \<and>
      consistent (state_after (signMessage e message (start s))))"
proof (intro conjI impI)
  assume "reachable s"
  then have "consistent s" by (rule reachable_consistent)
  then show "(priv_wallet s \<noteq> None) = connected s" by (simp add: consistent_def)
next
  assume "consistent s"
  then show "consistent (state_after (connect e (start s)))" by (rule connect_consistent)
next
  assume "consistent s"
  then show "consistent (state_after (disconnect e (start s)))" by (rule disconnect_consistent)
next
  assume "consistent s"
  then show "consistent (state_after (signTransaction e transactionPyld options (start s)))"
    by (simp add: signTransaction_state)
next
  assume "consistent s"
  then show "consistent (state_after (signAndSubmitTransaction e transactionPyld options (start s)))"
    by (simp add: signAndSubmitTransaction_state)
next
  assume "consistent s"
  then show "consistent (state_after (signMessage e message (start s)))"
    by (simp add: signMessage_state)
qed

theorem record_present_iff_connected_witness:
  "reachable connected_adapter \<and> consistent connected_adapter \<and>
   priv_wallet connected_adapter \<noteq> None \<and> connected connected_adapter \<and>
   consistent (state_after (connect example_env (start connected_adapter))) \<and>
   consistent (state_after (disconnect example_env (start connected_adapter))) \<and>
   consistent (state_after
     (signTransaction example_env (TransactionPayload ''transfer'') None (start connected_adapter))) \<and>
   consistent (state_after
     (signAndSubmitTransaction example_env (TransactionPayload ''transfer'') None (start connected_adapter))) \<and>
   consistent (state_after (signMessage example_env ''hello'' (start connected_adapter)))"
proof -
  have r: "reachable connected_adapter" by (rule reachable_connected_adapter)
  have c: "consistent connected_adapter"
    by (simp add: consistent_def connected_def connected_adapter_eq)
  have k: "connected connected_adapter"
    by (simp add: connected_def connected_adapter_eq)
  from record_present_iff_connected
    [of connected_adapter example_env "TransactionPayload ''transfer''" None "''hello''"] r c k
  show ?thesis by simp
qed

subsection \<open>\<^verbatim>\<open>connect\<close>\<close>

text \<open>
  C2, as amended. During \<^verbatim>\<open>connect\<close>, when the provider reports an existing session
  (\<^verbatim>\<open>isConnected()\<close> resolves to true), the adapter calls the provider's
  \<^verbatim>\<open>disconnect()\<close> before connecting. When that call succeeds, the next provider
  operation is \<^verbatim>\<open>connect()\<close>. When it fails, the failure is not swallowed: the
  provider's \<^verbatim>\<open>connect()\<close> is not invoked, the generic \<^verbatim>\<open>error\<close> event is emitted,
  \<^verbatim>\<open>connect\<close> rejects with that failure and the connection record stays as it was.
\<close>

theorem connect_stale_session:
  assumes "\<not> connected s" and "\<not> connecting s"
    and "readyState s = Loadable \<or> readyState s = Installed"
    and "provider_of e s = Returns (Some p)"
    and "p_isConnected (replies e p) = Returns (Some True)"
  shows "(p_disconnect (replies e p) = Returns u \<longrightarrow>
       take 3 (calls_of (connect e (start s))) = [Call_isConnected, Call_disconnect, Call_connect]) \<and>
    (p_disconnect (replies e p) = Throws x \<longrightarrow>
       calls_of (connect e (start s)) = [Call_isConnected, Call_disconnect] \<and>
       outcome_of (connect e (start s)) = Throws x \<and>
       events_of (connect e (start s)) =
         [Error_event (Generic_Error ''User has rejected the connection'')] \<and>
       priv_wallet (state_after (connect e (start s))) = priv_wallet s)"
  using assms
  by (auto simp add: connect_def task_defs connected_def connecting_def readyState_def
      provider_of_connecting split: option.splits outcome.splits prod.splits)

theorem connect_stale_session_witness:
  "calls_of (connect settled_session_env (start installed_adapter)) =
     [Call_isConnected, Call_disconnect, Call_connect, Call_account, Call_publicKey] \<and>
   calls_of (connect stale_session_env (start installed_adapter)) = [Call_isConnected, Call_disconnect] \<and>
   outcome_of (connect stale_session_env (start installed_adapter)) =
     Throws (Object (Some ''disconnect failed'') Undefined) \<and>
   events_of (connect stale_session_env (start installed_adapter)) =
     [Error_event (Generic_Error ''User has rejected the connection'')] \<and>
   priv_wallet (state_after (connect stale_session_env (start installed_adapter))) = None"
proof -
  have a: "\<not> connected installed_adapter" "\<not> connecting installed_adapter"
    "readyState installed_adapter = Loadable \<or> readyState installed_adapter = Installed"
    by (simp_all add: installed_adapter_eq connected_def connecting_def readyState_def)
  have b: "provider_of settled_session_env installed_adapter = Returns (Some (Provider 0))"
    "provider_of stale_session_env installed_adapter = Returns (Some (Provider 0))"
    by (simp_all add: installed_adapter_eq provider_of_def window_pontem_def)
  have c: "p_isConnected (replies settled_session_env (Provider 0)) = Returns (Some True)"
    "p_isConnected (replies stale_session_env (Provider 0)) = Returns (Some True)"
    "p_disconnect (replies settled_session_env (Provider 0)) = Returns None"
    "p_disconnect (replies stale_session_env (Provider 0)) =
       Throws (Object (Some ''disconnect failed'') Undefined)"
    by (simp_all add: example_defs)
  have d: "calls_of (connect settled_session_env (start installed_adapter)) =
     [Call_isConnected, Call_disconnect, Call_connect, Call_account, Call_publicKey]"
    by (simp add: installed_adapter_eq connect_def task_defs example_defs
        connected_def connecting_def provider_of_def window_pontem_def address_or_empty_def)
  from connect_stale_session [OF a b(1) c(1), of None]
    connect_stale_session [OF a b(2) c(2), of _ "Object (Some ''disconnect failed'') Undefined"]
    c d
  show ?thesis by (simp add: installed_adapter_eq)
qed

text \<open>
  C2, as stated, fails: from the installed, unconnected adapter, with a provider that
  reports a session and whose \<^verbatim>\<open>disconnect()\<close> rejects, \<^verbatim>\<open>connect\<close> invokes
  \<^verbatim>\<open>isConnected()\<close> and \<^verbatim>\<open>disconnect()\<close> only, and rejects with the provider's failure.
\<close>

theorem connect_stale_session_counterexample:
  "\<not> connected installed_adapter \<and> \<not> connecting installed_adapter \<and>
   readyState installed_adapter = Installed \<and>
   provider_of stale_session_env installed_adapter = Returns (Some (Provider 0)) \<and>
   p_isConnected (replies stale_session_env (Provider 0)) = Returns (Some True) \<and>
   p_disconnect (replies stale_session_env (Provider 0)) =
     Throws (Object (Some ''disconnect failed'') Undefined) \<and>
   calls_of (connect stale_session_env (start installed_adapter)) = [Call_isConnected, Call_disconnect] \<and>
   Call_connect \<notin> set (calls_of (connect stale_session_env (start installed_adapter))) \<and>
   outcome_of (connect stale_session_env (start installed_adapter)) =
     Throws (Object (Some ''disconnect failed'') Undefined)"
  by (simp add: installed_adapter_eq connect_def task_defs example_defs connected_def
      connecting_def readyState_def provider_of_def window_pontem_def)

text \<open>
  C4. In every state whose ready state is neither \<open>Loadable\<close> nor \<open>Installed\<close> and in
  which the adapter is neither connected nor connecting, \<^verbatim>\<open>connect\<close> rejects with
  \<open>WalletNotReadyError\<close>, invokes no provider operation and leaves the connection record
  unchanged; the record is absent afterwards in every state in which record and
  \<^verbatim>\<open>connected\<close> agree, which the reachable states do.
\<close>

theorem connect_not_ready:
  "\<not> connected s \<Longrightarrow> \<not> connecting s \<Longrightarrow>
   readyState s \<noteq> Loadable \<Longrightarrow> readyState s \<noteq> Installed \<Longrightarrow>
   outcome_of (connect e (start s)) = Throws WalletNotReadyError \<and>
   calls_of (connect e (start s)) = [] \<and>
   priv_wallet (state_after (connect e (start s))) = priv_wallet s \<and>
   \<not> connected (state_after (connect e (start s))) \<and>
   (consistent s \<longrightarrow> priv_wallet (state_after (connect e (start s))) = None)"
  by (simp add: connect_def task_defs readyState_def consistent_def connected_def)

theorem connect_not_ready_witness:
  "\<not> connected fresh_adapter \<and> \<not> connecting fresh_adapter \<and>
   readyState fresh_adapter = NotDetected \<and> consistent fresh_adapter \<and>
   outcome_of (connect example_env (start fresh_adapter)) = Throws WalletNotReadyError \<and>
   calls_of (connect example_env (start fresh_adapter)) = [] \<and>
   priv_wallet (state_after (connect example_env (start fresh_adapter))) = None"
proof -
  have a: "\<not> connected fresh_adapter" "\<not> connecting fresh_adapter"
    by (simp_all add: connected_def connecting_def fresh_adapter_eq)
  have b: "readyState fresh_adapter = NotDetected"
    by (simp add: readyState_def fresh_adapter_eq)
  have c: "consistent fresh_adapter"
    by (simp add: consistent_def connected_def fresh_adapter_eq)
  from connect_not_ready [of fresh_adapter example_env] a b c
  show ?thesis by (simp add: fresh_adapter_eq)
qed

text \<open>
  C6. In every state in which \<^verbatim>\<open>connected\<close> or \<^verbatim>\<open>connecting\<close> is true, \<^verbatim>\<open>connect\<close>
  returns at once: it invokes no provider operation, emits nothing and changes neither
  the connection record nor the ready state. A call made while another \<^verbatim>\<open>connect\<close> is
  in flight finds \<^verbatim>\<open>connecting\<close> true and is such a call.
\<close>

theorem connect_short_circuit:
  "connected s \<or> connecting s \<Longrightarrow>
   outcome_of (connect e (start s)) = Returns () \<and>
   calls_of (connect e (start s)) = [] \<and>
   events_of (connect e (start s)) = [] \<and>
   priv_wallet (state_after (connect e (start s))) = priv_wallet s \<and>
   priv_readyState (state_after (connect e (start s))) = priv_readyState s"
  by (simp add: connect_def task_defs)

theorem connect_short_circuit_witness:
  "connected connected_adapter \<and>
   connecting (installed_adapter\<lparr>priv_connecting := True\<rparr>) \<and>
   outcome_of (connect example_env (start connected_adapter)) = Returns () \<and>
   calls_of (connect example_env (start connected_adapter)) = [] \<and>
   priv_wallet (state_after (connect example_env (start connected_adapter))) =
     priv_wallet connected_adapter \<and>
   priv_readyState (state_after (connect example_env (start connected_adapter))) = Installed \<and>
   outcome_of (connect example_env (start (installed_adapter\<lparr>priv_connecting := True\<rparr>))) = Returns () \<and>
   calls_of (connect example_env (start (installed_adapter\<lparr>priv_connecting := True\<rparr>))) = [] \<and>
   priv_wallet (state_after (connect example_env (start (installed_adapter\<lparr>priv_connecting := True\<rparr>)))) =
     None"
proof -
  have a: "connected connected_adapter"
    by (simp add: connected_def connected_adapter_eq)
  have b: "connecting (installed_adapter\<lparr>priv_connecting := True\<rparr>)"
    by (simp add: connecting_def)
  from connect_short_circuit [of connected_adapter example_env]
    connect_short_circuit [of "installed_adapter\<lparr>priv_connecting := True\<rparr>" example_env] a b
  show ?thesis by (simp add: connected_adapter_eq installed_adapter_eq)
qed

text \<open>
  The \<^verbatim>\<open>finally\<close> block runs after the early \<^verbatim>\<open>return\<close> as well: the only field that
  such a call changes is \<^verbatim>\<open>_connecting\<close>, which it sets to false.
\<close>

lemma early_return_clears_connecting:
  "connected s \<or> connecting s \<Longrightarrow>
   state_after (connect e (start s)) = s\<lparr>priv_connecting := False\<rparr>"
  by (simp add: connect_def task_defs)

text \<open>
  C7, as amended. When the connection record is absent and \<^verbatim>\<open>connect\<close> gets past its
  guards, the provider's \<^verbatim>\<open>connect()\<close> resolves to a truthy response and the following
  \<^verbatim>\<open>account()\<close> resolves to nothing (to \<^verbatim>\<open>undefined\<close> or to the empty string), the
  record is left absent, so that \<^verbatim>\<open>connected\<close> is still false. When the
  \<^verbatim>\<open>publicKey()\<close> call that follows resolves, \<^verbatim>\<open>connect\<close> resolves and its only event
  is \<^verbatim>\<open>connect\<close> with the empty string as address. When that call rejects, \<^verbatim>\<open>connect\<close>
  rejects with its failure and its only event is the generic \<^verbatim>\<open>error\<close>.
\<close>

theorem connect_without_account:
  assumes "priv_wallet s = None" and "\<not> connecting s"
    and "readyState s = Loadable \<or> readyState s = Installed"
    and "provider_of e s = Returns (Some p)"
    and "p_isConnected (replies e p) = Returns b"
    and "b = Some True \<longrightarrow> p_disconnect (replies e p) = Returns u"
    and "p_connect (replies e p) = Returns (Some response)"
    and "p_account (replies e p) = Returns a" and "\<not> truthy a"
  shows "priv_wallet (state_after (connect e (start s))) = None \<and>
    connected (state_after (connect e (start s))) = False \<and>
    (p_publicKey (replies e p) = Returns k \<longrightarrow>
       outcome_of (connect e (start s)) = Returns () \<and>
       events_of (connect e (start s)) = [Connect_event (Str [])]) \<and>
    (p_publicKey (replies e p) = Throws x \<longrightarrow>
       outcome_of (connect e (start s)) = Throws x \<and>
       events_of (connect e (start s)) =
         [Error_event (Generic_Error ''User has rejected the connection'')])"
proof (cases "b = Some True")
  case True
  with assms show ?thesis
    by (cases a; cases "p_publicKey (replies e p)")
      (auto simp add: connect_def task_defs connected_def connecting_def readyState_def
        address_or_empty_def provider_of_connecting)
next
  case False
  with assms show ?thesis
    by (cases a; cases "p_publicKey (replies e p)")
      (auto simp add: connect_def task_defs connected_def connecting_def readyState_def
        address_or_empty_def provider_of_connecting)
qed

theorem connect_without_account_witness:
  "outcome_of (connect no_account_env (start installed_adapter)) = Returns () \<and>
   events_of (connect no_account_env (start installed_adapter)) = [Connect_event (Str [])] \<and>
   calls_of (connect no_account_env (start installed_adapter)) =
     [Call_isConnected, Call_connect, Call_account, Call_publicKey] \<and>
   priv_wallet (state_after (connect no_account_env (start installed_adapter))) = None \<and>
   connected (state_after (connect no_account_env (start installed_adapter))) = False \<and>
   outcome_of (connect no_keys_env (start installed_adapter)) =
     Throws (Object (Some ''no account'') Undefined) \<and>
   events_of (connect no_keys_env (start installed_adapter)) =
     [Error_event (Generic_Error ''User has rejected the connection'')] \<and>
   priv_wallet (state_after (connect no_keys_env (start installed_adapter))) = None"
proof -
  have a: "priv_wallet installed_adapter = None" "\<not> connecting installed_adapter"
    "readyState installed_adapter = Loadable \<or> readyState installed_adapter = Installed"
    by (simp_all add: installed_adapter_eq connecting_def readyState_def)
  have p: "provider_of no_account_env installed_adapter = Returns (Some (Provider 0))"
    "provider_of no_keys_env installed_adapter = Returns (Some (Provider 0))"
    by (simp_all add: installed_adapter_eq provider_of_def)
  have b: "p_isConnected (replies no_account_env (Provider 0)) = Returns (Some False)"
    "Some False = Some True \<longrightarrow> p_disconnect (replies no_account_env (Provider 0)) = Returns None"
    "p_connect (replies no_account_env (Provider 0)) = Returns (Some \<lparr>connect_address = Str ''0xA'',
       connect_method = ''connect'', connect_publicKey = Str ''0xB'', connect_status = 200\<rparr>)"
    "p_account (replies no_account_env (Provider 0)) = Returns None" "\<not> truthy None"
    by (simp_all add: example_defs)
  have c: "p_isConnected (replies no_keys_env (Provider 0)) = Returns (Some False)"
    "Some False = Some True \<longrightarrow> p_disconnect (replies no_keys_env (Provider 0)) = Returns None"
    "p_connect (replies no_keys_env (Provider 0)) = Returns (Some \<lparr>connect_address = Str ''0xA'',
       connect_method = ''connect'', connect_publicKey = Str ''0xB'', connect_status = 200\<rparr>)"
    "p_account (replies no_keys_env (Provider 0)) = Returns None"
    by (simp_all add: example_defs)
  have k: "p_publicKey (replies no_account_env (Provider 0)) = Returns (Some (Str ''0xB''))"
    "p_publicKey (replies no_keys_env (Provider 0)) = Throws (Object (Some ''no account'') Undefined)"
    by (simp_all add: example_defs)
  have d: "calls_of (connect no_account_env (start installed_adapter)) =
     [Call_isConnected, Call_connect, Call_account, Call_publicKey]"
    by (simp add: installed_adapter_eq connect_def task_defs example_defs connected_def
        connecting_def provider_of_def window_pontem_def address_or_empty_def)
  from connect_without_account [OF a p(1) b, of "Some (Str ''0xB'')"]
    connect_without_account [OF a p(2) c b(5), of _ "Object (Some ''no account'') Undefined"]
    k d
  show ?thesis by simp
qed

text \<open>
  C7, as stated, fails: from the installed, unconnected adapter, with a provider whose
  \<^verbatim>\<open>connect()\<close> resolves to a truthy response, whose \<^verbatim>\<open>account()\<close> resolves to nothing
  and whose \<^verbatim>\<open>publicKey()\<close> rejects, \<^verbatim>\<open>connect\<close> does not resolve and emits no
  \<^verbatim>\<open>connect\<close> event: it rejects with the failure of \<^verbatim>\<open>publicKey()\<close> after the generic
  \<^verbatim>\<open>error\<close> event.
\<close>

theorem connect_without_account_counterexample:
  "priv_wallet installed_adapter = None \<and> \<not> connecting installed_adapter \<and>
   readyState installed_adapter = Installed \<and>
   p_connect (replies no_keys_env (Provider 0)) =
     Returns (Some \<lparr>connect_address = Str ''0xA'', connect_method = ''connect'',
       connect_publicKey = Str ''0xB'', connect_status = 200\<rparr>) \<and>
   p_account (replies no_keys_env (Provider 0)) = Returns None \<and>
   calls_of (connect no_keys_env (start installed_adapter)) =
     [Call_isConnected, Call_connect, Call_account, Call_publicKey] \<and>
   outcome_of (connect no_keys_env (start installed_adapter)) =
     Throws (Object (Some ''no account'') Undefined) \<and>
   events_of (connect no_keys_env (start installed_adapter)) =
     [Error_event (Generic_Error ''User has rejected the connection'')]"
  by (simp add: installed_adapter_eq connect_def task_defs example_defs connected_def
      connecting_def readyState_def provider_of_def window_pontem_def)

subsection \<open>\<^verbatim>\<open>disconnect\<close>\<close>

text \<open>
  C5 does not hold of the code. The adapter that the constructor builds where there is
  no \<^verbatim>\<open>window\<close> has no provider and no connection record. When \<^verbatim>\<open>disconnect\<close> is
  called on it there, the declaration \<^verbatim>\<open>const provider = this._provider || window.pontem\<close>
  evaluates \<^verbatim>\<open>window.pontem\<close> and throws a ReferenceError, outside any \<^verbatim>\<open>try\<close>: the
  call rejects and no \<^verbatim>\<open>disconnect\<close> event is emitted. The constructor guards the same
  read with \<^verbatim>\<open>typeof window !== 'undefined'\<close>.
\<close>

theorem disconnect_without_window:
  "reachable windowless_adapter \<and>
   readyState windowless_adapter = Unsupported \<and>
   priv_wallet windowless_adapter = None \<and>
   outcome_of (disconnect windowless_env (start windowless_adapter)) =
     Throws (ReferenceError ''window is not defined'') \<and>
   events_of (disconnect windowless_env (start windowless_adapter)) = [] \<and>
   calls_of (disconnect windowless_env (start windowless_adapter)) = []"
proof -
  have "reachable windowless_adapter"
    unfolding windowless_adapter_def by (rule reachable.constructed)
  then show ?thesis
    by (simp add: windowless_adapter_def constructor_def readyState_def disconnect_def task_defs
        example_defs provider_of_def window_pontem_def not_defined_def)
qed

text \<open>
  Wherever the lookup of the provider does not throw (there is a \<^verbatim>\<open>window\<close>, or the
  adapter holds a provider), \<^verbatim>\<open>disconnect\<close> does what the claim says: it resolves,
  ends with \<^verbatim>\<open>connected\<close> false and emits exactly one \<^verbatim>\<open>disconnect\<close> event; without a
  record it invokes no provider operation; a failure of the provider's
  \<^verbatim>\<open>disconnect()\<close> is reported by an \<^verbatim>\<open>error\<close> event carrying a
  \<open>WalletDisconnectionError\<close> and is not raised.
\<close>

lemma disconnect_where_lookup_returns:
  "provider_of e s = Returns provider \<Longrightarrow>
   outcome_of (disconnect e (start s)) = Returns () \<and>
   connected (state_after (disconnect e (start s))) = False \<and>
   count_list (events_of (disconnect e (start s))) Disconnect_event = 1 \<and>
   (priv_wallet s = None \<longrightarrow>
      calls_of (disconnect e (start s)) = [] \<and>
      events_of (disconnect e (start s)) = [Disconnect_event]) \<and>
   (priv_wallet s \<noteq> None \<and> provider = Some p \<and> p_disconnect (replies e p) = Returns u \<longrightarrow>
      calls_of (disconnect e (start s)) = [Call_disconnect] \<and>
      events_of (disconnect e (start s)) = [Disconnect_event]) \<and>
   (priv_wallet s \<noteq> None \<and> provider = Some p \<and> p_disconnect (replies e p) = Throws x \<longrightarrow>
      calls_of (disconnect e (start s)) = [Call_disconnect] \<and>
      events_of (disconnect e (start s)) =
        [Error_event (WalletDisconnectionError (optional_message x) x), Disconnect_event])"
  by (auto simp add: disconnect_def task_defs connected_def split: option.splits outcome.splits)

lemma disconnect_connected_adapter:
  "events_of (disconnect example_env (start connected_adapter)) = [Disconnect_event] \<and>
   calls_of (disconnect example_env (start connected_adapter)) = [Call_disconnect] \<and>
   priv_wallet (state_after (disconnect example_env (start connected_adapter))) = None \<and>
   outcome_of (disconnect failing_disconnect_env (start connected_adapter)) = Returns () \<and>
   events_of (disconnect failing_disconnect_env (start connected_adapter)) =
     [Error_event (WalletDisconnectionError (Some ''busy'') (Object (Some ''busy'') Undefined)),
      Disconnect_event]"
  by (simp add: connected_adapter_eq disconnect_def task_defs example_defs provider_of_def
      optional_message_def)

subsection \<open>The signing operations\<close>

text \<open>
  C8 does not hold of the code. On the adapter that the constructor builds where there
  is no \<^verbatim>\<open>window\<close>, which has no connection record and no provider,
  \<^verbatim>\<open>signTransaction\<close> evaluates \<^verbatim>\<open>this._provider || window.pontem\<close> before the guard
  that throws \<open>WalletNotConnectedError\<close>: the read of \<^verbatim>\<open>window.pontem\<close> throws a
  ReferenceError, the \<^verbatim>\<open>catch\<close> block reports it and raises it again, and the call
  rejects with the ReferenceError. No provider operation is invoked.
\<close>

theorem signTransaction_without_window:
  "reachable windowless_adapter \<and>
   priv_wallet windowless_adapter = None \<and>
   priv_provider windowless_adapter = None \<and>
   outcome_of (signTransaction windowless_env (TransactionPayload ''transfer'') None
     (start windowless_adapter)) = Throws (ReferenceError ''window is not defined'') \<and>
   outcome_of (signTransaction windowless_env (TransactionPayload ''transfer'') None
     (start windowless_adapter)) \<noteq> Throws (WalletNotConnectedError None) \<and>
   events_of (signTransaction windowless_env (TransactionPayload ''transfer'') None
     (start windowless_adapter)) =
     [Error_event (WalletSignTransactionError (ReferenceError ''window is not defined''))] \<and>
   calls_of (signTransaction windowless_env (TransactionPayload ''transfer'') None
     (start windowless_adapter)) = []"
proof -
  have "reachable windowless_adapter"
    unfolding windowless_adapter_def by (rule reachable.constructed)
  then show ?thesis
    by (simp add: windowless_adapter_def constructor_def signTransaction_def task_defs
        example_defs provider_of_def window_pontem_def not_defined_def)
qed

text \<open>
  Wherever the lookup of the provider does not throw, \<^verbatim>\<open>signTransaction\<close> does what
  the claim says: without a connection record, or without a provider in \<^verbatim>\<open>_provider\<close>
  and in \<^verbatim>\<open>window.pontem\<close>, it rejects with \<open>WalletNotConnectedError\<close> and invokes no
  provider operation.
\<close>

lemma signTransaction_where_lookup_returns:
  "provider_of e s = Returns provider \<Longrightarrow> priv_wallet s = None \<or> provider = None \<Longrightarrow>
   outcome_of (signTransaction e transactionPyld options (start s)) =
     Throws (WalletNotConnectedError None) \<and>
   events_of (signTransaction e transactionPyld options (start s)) =
     [Error_event (WalletSignTransactionError (WalletNotConnectedError None))] \<and>
   calls_of (signTransaction e transactionPyld options (start s)) = []"
  by (auto simp add: signTransaction_def task_defs)

text \<open>
  C3 does not hold of the code. From the connected adapter, with a provider that
  answers \<^verbatim>\<open>signAndSubmit\<close> with \<^verbatim>\<open>{ success: false }\<close>, the operation throws
  \<^verbatim>\<open>new Error('No response')\<close>; its \<^verbatim>\<open>catch\<close> block then reads
  \<^verbatim>\<open>error.error.message\<close>, and an \<^verbatim>\<open>Error\<close> has no property \<^verbatim>\<open>error\<close>. The call
  rejects with the TypeError of that read and no \<^verbatim>\<open>error\<close> event is emitted. The
  adapter's state, and with it the connection record, is unchanged.
\<close>

theorem signAndSubmit_refused:
  "connected connected_adapter \<and>
   provider_of refusing_env connected_adapter = Returns (Some (Provider 0)) \<and>
   p_signAndSubmit (replies refusing_env (Provider 0)) (TransactionPayload ''transfer'') None =
     Returns (Some \<lparr>submit_success = False, submit_result = None\<rparr>) \<and>
   outcome_of (signAndSubmitTransaction refusing_env (TransactionPayload ''transfer'') None
     (start connected_adapter)) = Throws (cannot_read ''message'') \<and>
   events_of (signAndSubmitTransaction refusing_env (TransactionPayload ''transfer'') None
     (start connected_adapter)) = [] \<and>
   calls_of (signAndSubmitTransaction refusing_env (TransactionPayload ''transfer'') None
     (start connected_adapter)) = [Call_signAndSubmit (TransactionPayload ''transfer'') None] \<and>
   state_after (signAndSubmitTransaction refusing_env (TransactionPayload ''transfer'') None
     (start connected_adapter)) = connected_adapter"
  by (simp add: connected_adapter_eq signAndSubmitTransaction_def task_defs example_defs
      connected_def provider_of_def window_pontem_def)

text \<open>The same happens in every state with a record and a provider that refuses.\<close>

lemma signAndSubmit_refused_everywhere:
  "priv_wallet s \<noteq> None \<Longrightarrow> provider_of e s = Returns (Some p) \<Longrightarrow>
   p_signAndSubmit (replies e p) transactionPyld options = Returns (Some r) \<Longrightarrow>
   \<not> submit_success r \<Longrightarrow>
   signAndSubmitTransaction e transactionPyld options (start s) =
     (Throws (cannot_read ''message''),
      \<lparr>this = s, emitted = [], invoked = [Call_signAndSubmit transactionPyld options]\<rparr>)"
  by (auto simp add: signAndSubmitTransaction_def task_defs)

text \<open>
  The event of the claim is emitted when the provider itself rejects with a value that
  has the nested message, and the original value is raised again.
\<close>

lemma signAndSubmit_rejected_by_provider:
  "priv_wallet s \<noteq> None \<Longrightarrow> provider_of e s = Returns (Some p) \<Longrightarrow>
   p_signAndSubmit (replies e p) transactionPyld options = Throws (Object m (Object m' inner)) \<Longrightarrow>
   signAndSubmitTransaction e transactionPyld options (start s) =
     (Throws (Object m (Object m' inner)),
      \<lparr>this = s, emitted = [Error_event (WalletSignAndSubmitMessageError m')],
       invoked = [Call_signAndSubmit transactionPyld options]\<rparr>)"
  by (auto simp add: signAndSubmitTransaction_def task_defs)

text \<open>
  C9. In every connected state with a provider, \<^verbatim>\<open>signMessage(message)\<close> forwards the
  message to the provider. When the provider answers
  \<^verbatim>\<open>{ success: true, result: { hexString: h } }\<close> the call resolves to \<open>h\<close> and emits
  nothing; when it answers with \<^verbatim>\<open>success: false\<close> the call rejects with
  \<^verbatim>\<open>Error('Sign Message failed')\<close> and emits one \<^verbatim>\<open>error\<close> event that carries a
  \<open>WalletSignMessageError\<close> with that message.
\<close>

theorem signMessage_connected:
  "connected s \<Longrightarrow> provider_of e s = Returns (Some p) \<Longrightarrow>
   (p_signMessage (replies e p) message =
      Returns (Some \<lparr>success = True, result = Some \<lparr>hexString = h\<rparr>\<rparr>) \<longrightarrow>
      outcome_of (signMessage e message (start s)) = Returns h \<and>
      events_of (signMessage e message (start s)) = []) \<and>
   (p_signMessage (replies e p) message = Returns (Some r) \<and> \<not> success r \<longrightarrow>
      outcome_of (signMessage e message (start s)) = Throws (Error ''Sign Message failed'') \<and>
      events_of (signMessage e message (start s)) =
        [Error_event (WalletSignMessageError (Some ''Sign Message failed''))]) \<and>
   calls_of (signMessage e message (start s)) = [Call_signMessage message]"
  by (auto simp add: signMessage_def task_defs connected_def
      split: option.splits outcome.splits if_splits prod.splits)

theorem signMessage_connected_witness:
  "connected connected_adapter \<and>
   provider_of example_env connected_adapter = Returns (Some (Provider 0)) \<and>
   p_signMessage (replies example_env (Provider 0)) ''hello'' =
     Returns (Some \<lparr>success = True, result = Some \<lparr>hexString = ''0xdead''\<rparr>\<rparr>) \<and>
   outcome_of (signMessage example_env ''hello'' (start connected_adapter)) = Returns ''0xdead'' \<and>
   provider_of refusing_env connected_adapter = Returns (Some (Provider 0)) \<and>
   p_signMessage (replies refusing_env (Provider 0)) ''hello'' =
     Returns (Some \<lparr>success = False, result = None\<rparr>) \<and>
   outcome_of (signMessage refusing_env ''hello'' (start connected_adapter)) =
     Throws (Error ''Sign Message failed'') \<and>
   events_of (signMessage refusing_env ''hello'' (start connected_adapter)) =
     [Error_event (WalletSignMessageError (Some ''Sign Message failed''))]"
proof -
  have a: "connected connected_adapter"
    by (simp add: connected_def connected_adapter_eq)
  have b: "provider_of example_env connected_adapter = Returns (Some (Provider 0))"
    "provider_of refusing_env connected_adapter = Returns (Some (Provider 0))"
    by (simp_all add: provider_of_def window_pontem_def connected_adapter_eq)
  have c: "p_signMessage (replies example_env (Provider 0)) ''hello'' =
      Returns (Some \<lparr>success = True, result = Some \<lparr>hexString = ''0xdead''\<rparr>\<rparr>)"
    "p_signMessage (replies refusing_env (Provider 0)) ''hello'' =
      Returns (Some \<lparr>success = False, result = None\<rparr>)"
    by (simp_all add: example_defs)
  from signMessage_connected [OF a b(1), of "''hello''" "''0xdead''"]
    signMessage_connected [OF a b(2), of "''hello''" _ "\<lparr>success = False, result = None\<rparr>"]
    a b c
  show ?thesis by simp
qed

subsection \<open>The accessor \<^verbatim>\<open>publicAccount\<close>\<close>

text \<open>
  C10. The accessor \<^verbatim>\<open>publicAccount\<close> consists of optional chaining and \<^verbatim>\<open>||\<close>, which
  do not throw: it is a total function of the state. In every reachable state it
  returns \<^verbatim>\<open>{ publicKey: null, address: null, authKey: null }\<close> when there is no
  connection record, it returns \<^verbatim>\<open>null\<close> for the public key and for the auth key when
  the record does not set them, and its \<^verbatim>\<open>authKey\<close> is \<^verbatim>\<open>null\<close>, also after any
  \<^verbatim>\<open>connect\<close>, since \<^verbatim>\<open>connect\<close> builds the record without an auth key.
\<close>

theorem publicAccount_nulls:
  "reachable s \<Longrightarrow>
   (priv_wallet s = None \<longrightarrow>
      publicAccount s = \<lparr>keys_publicKey = None, keys_address = None, keys_authKey = None\<rparr>) \<and>
   (priv_wallet s = Some wallet \<longrightarrow>
      (publicKey wallet = None \<longrightarrow> keys_publicKey (publicAccount s) = None) \<and>
      (authKey wallet = None \<longrightarrow> keys_authKey (publicAccount s) = None)) \<and>
   keys_authKey (publicAccount s) = None \<and>
   keys_authKey (publicAccount (state_after (connect e (start s)))) = None"
proof -
  assume r: "reachable s"
  have n: "authKey_unset t \<Longrightarrow> keys_authKey (publicAccount t) = None" for t
    by (simp add: authKey_unset_def publicAccount_def or_null_def split: option.splits)
  have "authKey_unset s" using r by (rule reachable_authKey_unset)
  moreover have "authKey_unset (state_after (connect e (start s)))"
    using r by (intro reachable_authKey_unset reachable.after_connect)
  ultimately show ?thesis
    by (simp add: n) (simp add: publicAccount_def or_null_def)
qed

theorem publicAccount_nulls_witness:
  "reachable installed_adapter \<and> priv_wallet installed_adapter = None \<and>
   publicAccount installed_adapter =
     \<lparr>keys_publicKey = None, keys_address = None, keys_authKey = None\<rparr> \<and>
   reachable connected_adapter \<and>
   connected_adapter = state_after (connect example_env (start installed_adapter)) \<and>
   outcome_of (connect example_env (start installed_adapter)) = Returns () \<and>
   publicAccount connected_adapter =
     \<lparr>keys_publicKey = Some (Str ''0xB''), keys_address = Some (Str ''0xA''), keys_authKey = None\<rparr>"
proof -
  have a: "priv_wallet installed_adapter = None" by (simp add: installed_adapter_eq)
  have b: "outcome_of (connect example_env (start installed_adapter)) = Returns ()"
    by (simp add: installed_adapter_eq connect_def task_defs example_defs connected_def
        connecting_def provider_of_def window_pontem_def address_or_empty_def)
  have c: "keys_publicKey (publicAccount connected_adapter) = Some (Str ''0xB'')"
    "keys_address (publicAccount connected_adapter) = Some (Str ''0xA'')"
    by (simp_all add: connected_adapter_eq publicAccount_def or_null_def)
  from publicAccount_nulls [OF reachable_installed_adapter, of _ example_env]
    publicAccount_nulls [OF reachable_connected_adapter, of _ example_env]
    a b c reachable_installed_adapter reachable_connected_adapter
  show ?thesis
    by (cases "publicAccount connected_adapter") (simp add: connected_adapter_def)
qed

end
